theory Spec2Isabelle
  imports Main "HOL-Library.Char_ord" "HOL-Library.List_Lexorder" "HOL-Library.Product_Lexorder"
begin

section \<open>The entity store of docs/RBAC.md\<close>

text \<open>
  The tables are the \<^verbatim>\<open>CREATE TABLE\<close> statements of the "Database Schema" part of
  docs/RBAC.md. A UUID is an opaque token and is modelled as a natural number, a
  \<^verbatim>\<open>TIMESTAMP\<close> as an integer (seconds), a nullable column as an option. The boolean
  flags are compared with \<^verbatim>\<open>= true\<close> in every query, so SQL's NULL behaves as
  \<open>False\<close> there and the flags are plain booleans. Each record keeps the columns that
  the queries, the inserts and the table constraints of the document read or write.
\<close>

type_synonym uuid = nat
type_synonym timestamp = int

record user =
  user_id :: uuid
  is_active :: bool
  organization_id :: "uuid option"

record role =
  role_id :: uuid
  role_name :: string
  is_system_role :: bool
  is_default :: bool
  role_organization_id :: "uuid option"

record permission =
  perm_id :: uuid
  perm_name :: string
  description :: "string option"
  resource :: string
  action :: string
  is_system_permission :: bool
  perm_created_at :: timestamp

record user_role =
  ur_id :: uuid
  ur_user_id :: uuid
  ur_role_id :: uuid
  assigned_by :: uuid
  assigned_at :: timestamp
  expires_at :: "timestamp option"
  ur_is_active :: bool

record role_permission =
  rp_role_id :: uuid
  rp_permission_id :: uuid

record audit_log =
  al_user_id :: "uuid option"
  al_action :: string
  al_resource_type :: "string option"
  al_created_at :: timestamp

record store =
  users :: "user list"
  roles :: "role list"
  permissions :: "permission list"
  user_roles :: "user_role list"
  role_permissions :: "role_permission list"
  audit_logs :: "audit_log list"

section \<open>RBACManager: the two read queries\<close>

text \<open>
  Both queries of \<^verbatim>\<open>RBACManager\<close> read the same five-table join
  \<^verbatim>\<open>users u JOIN user_roles ur ON u.id = ur.user_id JOIN roles r ON ur.role_id = r.id
  JOIN role_permissions rp ON r.id = rp.role_id JOIN permissions p ON rp.permission_id = p.id\<close>.
\<close>

type_synonym joined_row = "user \<times> user_role \<times> role \<times> role_permission \<times> permission"

definition joined :: "store \<Rightarrow> joined_row list" where
  "joined db =
     [(u, ur, r, rp, p).
        u \<leftarrow> users db,
        ur \<leftarrow> user_roles db, user_id u = ur_user_id ur,
        r \<leftarrow> roles db, ur_role_id ur = role_id r,
        rp \<leftarrow> role_permissions db, role_id r = rp_role_id rp,
        p \<leftarrow> permissions db, rp_permission_id rp = perm_id p]"

text \<open>\<^verbatim>\<open>ur.is_active = true AND (ur.expires_at IS NULL OR ur.expires_at > NOW())\<close>\<close>

definition grant_effective :: "timestamp \<Rightarrow> user_role \<Rightarrow> bool" where
  "grant_effective now ur =
     (ur_is_active ur \<and> (case expires_at ur of None \<Rightarrow> True | Some t \<Rightarrow> t > now))"

text \<open>
  The \<^verbatim>\<open>WHERE\<close> clause of \<^verbatim>\<open>check_permission\<close>. The comparison
  \<^verbatim>\<open>u.organization_id = :org_id\<close> is not true when either side is NULL; it is
  reached with \<open>org_id\<close> not NULL, where it is the equality of the two options.
\<close>

definition check_where ::
  "timestamp \<Rightarrow> uuid \<Rightarrow> string \<Rightarrow> string \<Rightarrow> uuid option \<Rightarrow> joined_row \<Rightarrow> bool" where
  "check_where now uid res act org_id row =
     (case row of (u, ur, r, rp, p) \<Rightarrow>
        user_id u = uid
        \<and> resource p = res
        \<and> action p = act
        \<and> is_active u
        \<and> grant_effective now ur
        \<and> (org_id = None
            \<or> organization_id u = org_id
            \<or> is_system_role r))"

text \<open>\<^verbatim>\<open>SELECT COUNT(*) ...\<close>, then \<^verbatim>\<open>return result.scalar() > 0\<close>.\<close>

definition check_permission ::
  "store \<Rightarrow> timestamp \<Rightarrow> uuid \<Rightarrow> string \<Rightarrow> string \<Rightarrow> uuid option \<Rightarrow> bool" where
  "check_permission db now uid res act org_id =
     (length (filter (check_where now uid res act org_id) (joined db)) > 0)"

text \<open>The \<^verbatim>\<open>WHERE\<close> clause of \<^verbatim>\<open>get_user_permissions\<close>.\<close>

definition perms_where :: "timestamp \<Rightarrow> uuid \<Rightarrow> joined_row \<Rightarrow> bool" where
  "perms_where now uid row =
     (case row of (u, ur, r, rp, p) \<Rightarrow>
        user_id u = uid \<and> is_active u \<and> grant_effective now ur)"

text \<open>
  One result row of \<^verbatim>\<open>get_user_permissions\<close>: the dictionary with the keys
  resource, action, name and description, in the order of the \<^verbatim>\<open>SELECT\<close> list.
\<close>

type_synonym perm_row = "string \<times> string \<times> string \<times> string option"

definition select_perm :: "joined_row \<Rightarrow> perm_row" where
  "select_perm row =
     (case row of (u, ur, r, rp, p) \<Rightarrow> (resource p, action p, perm_name p, description p))"

definition order_key :: "perm_row \<Rightarrow> string \<times> string" where
  "order_key pr = (case pr of (res, act, nm, d) \<Rightarrow> (res, act))"

text \<open>
  \<^verbatim>\<open>SELECT DISTINCT p.resource, p.action, p.name, p.description ... ORDER BY p.resource,
  p.action\<close>; strings are ordered lexicographically by character code.
\<close>

definition get_user_permissions :: "store \<Rightarrow> timestamp \<Rightarrow> uuid \<Rightarrow> perm_row list" where
  "get_user_permissions db now uid =
     sort_key order_key (remdups (map select_perm (filter (perms_where now uid) (joined db))))"

section \<open>The permission decorator\<close>

datatype http_exception = HTTPException nat string

text \<open>
  \<^verbatim>\<open>require_permission(resource, action)\<close> wraps a handler \<open>func\<close>. The wrapper checks
  the permission of \<open>current_user\<close> in the user's own organization and either raises
  the 403 exception or runs the handler. The handler may write to the store, so the
  store is threaded through.
\<close>

definition require_permission ::
  "string \<Rightarrow> string \<Rightarrow> (store \<Rightarrow> (http_exception + 'a) \<times> store) \<Rightarrow>
     user \<Rightarrow> timestamp \<Rightarrow> store \<Rightarrow> (http_exception + 'a) \<times> store" where
  "require_permission res act func current_user now db =
     (if \<not> check_permission db now (user_id current_user) res act (organization_id current_user)
      then (Inl (HTTPException 403 (''Insufficient permissions: '' @ res @ ''.'' @ act)), db)
      else func db)"

text \<open>A handler that returns \<open>v\<close> and writes nothing.\<close>

definition pure_handler :: "'a \<Rightarrow> store \<Rightarrow> (http_exception + 'a) \<times> store" where
  "pure_handler v db = (Inr v, db)"

section \<open>RBACManager.assign\_role\<close>

text \<open>
  A write that breaks a table constraint raises SQLAlchemy's \<^verbatim>\<open>IntegrityError\<close>; the
  string names the constraint of the schema that was broken.
\<close>

datatype db_error = IntegrityError string

text \<open>
  \<^verbatim>\<open>self.db.add(user_role); self.db.commit()\<close>: the \<^verbatim>\<open>INSERT\<close> into
  \<^verbatim>\<open>user_roles\<close> under the constraints of the table: the primary key, the three
  foreign keys and \<^verbatim>\<open>CONSTRAINT unique_user_role UNIQUE(user_id, role_id)\<close>.
\<close>

definition insert_user_role :: "store \<Rightarrow> user_role \<Rightarrow> db_error + store" where
  "insert_user_role db g =
     (if ur_id g \<in> set (map ur_id (user_roles db))
        then Inl (IntegrityError ''user_roles_pkey'')
      else if ur_user_id g \<notin> set (map user_id (users db))
        then Inl (IntegrityError ''user_roles_user_id_fkey'')
      else if ur_role_id g \<notin> set (map role_id (roles db))
        then Inl (IntegrityError ''user_roles_role_id_fkey'')
      else if assigned_by g \<notin> set (map user_id (users db))
        then Inl (IntegrityError ''user_roles_assigned_by_fkey'')
      else if (ur_user_id g, ur_role_id g)
                \<in> set (map (\<lambda>x. (ur_user_id x, ur_role_id x)) (user_roles db))
        then Inl (IntegrityError ''unique_user_role'')
      else Inr (db\<lparr>user_roles := user_roles db @ [g]\<rparr>))"

text \<open>
  \<^verbatim>\<open>UserRole(user_id=..., role_id=..., assigned_by=..., expires_at=...)\<close>: the columns
  that are not given take their defaults: \<open>new_id\<close> is the value of
  \<^verbatim>\<open>gen_random_uuid()\<close>, \<^verbatim>\<open>assigned_at\<close> is \<^verbatim>\<open>NOW()\<close>, \<^verbatim>\<open>is_active\<close> is true.
\<close>

definition UserRole ::
  "uuid \<Rightarrow> timestamp \<Rightarrow> uuid \<Rightarrow> uuid \<Rightarrow> uuid \<Rightarrow> timestamp option \<Rightarrow> user_role" where
  "UserRole new_id now uid rid by_uid exp =
     \<lparr>ur_id = new_id, ur_user_id = uid, ur_role_id = rid, assigned_by = by_uid,
      assigned_at = now, expires_at = exp, ur_is_active = True\<rparr>"

text \<open>
  \<^verbatim>\<open>assign_role\<close> builds the row, inserts it, and turns any exception into
  \<^verbatim>\<open>rollback()\<close> and \<^verbatim>\<open>return False\<close>.
\<close>

definition assign_role ::
  "store \<Rightarrow> timestamp \<Rightarrow> uuid \<Rightarrow> uuid \<Rightarrow> uuid \<Rightarrow> uuid \<Rightarrow> timestamp option \<Rightarrow> bool \<times> store" where
  "assign_role db now new_id uid rid by_uid exp =
     (case insert_user_role db (UserRole new_id now uid rid by_uid exp) of
        Inl e \<Rightarrow> (False, db)
      | Inr db' \<Rightarrow> (True, db'))"

section \<open>scripts/seed\_permissions.py\<close>

record perm_data =
  pd_name :: string
  pd_resource :: string
  pd_action :: string
  pd_description :: string

definition DEFAULT_PERMISSIONS :: "perm_data list" where
  "DEFAULT_PERMISSIONS =
   [\<lparr>pd_name = ''system.admin'', pd_resource = ''system'', pd_action = ''admin'',
      pd_description = ''Full system administration''\<rparr>,
    \<lparr>pd_name = ''user.create'', pd_resource = ''user'', pd_action = ''create'',
      pd_description = ''Create new users''\<rparr>,
    \<lparr>pd_name = ''user.read'', pd_resource = ''user'', pd_action = ''read'',
      pd_description = ''View user information''\<rparr>,
    \<lparr>pd_name = ''user.update'', pd_resource = ''user'', pd_action = ''update'',
      pd_description = ''Update user information''\<rparr>,
    \<lparr>pd_name = ''user.delete'', pd_resource = ''user'', pd_action = ''delete'',
      pd_description = ''Delete users''\<rparr>,
    \<lparr>pd_name = ''knowledge_base.create'', pd_resource = ''knowledge_base'',
      pd_action = ''create'', pd_description = ''Create knowledge bases''\<rparr>,
    \<lparr>pd_name = ''knowledge_base.read'', pd_resource = ''knowledge_base'',
      pd_action = ''read'', pd_description = ''View knowledge bases''\<rparr>,
    \<lparr>pd_name = ''knowledge_base.update'', pd_resource = ''knowledge_base'',
      pd_action = ''update'', pd_description = ''Update knowledge bases''\<rparr>,
    \<lparr>pd_name = ''knowledge_base.delete'', pd_resource = ''knowledge_base'',
      pd_action = ''delete'', pd_description = ''Delete knowledge bases''\<rparr>,
    \<lparr>pd_name = ''analytics.read'', pd_resource = ''analytics'', pd_action = ''read'',
      pd_description = ''View analytics''\<rparr>,
    \<lparr>pd_name = ''analytics.admin'', pd_resource = ''analytics'', pd_action = ''admin'',
      pd_description = ''Full analytics access''\<rparr>,
    \<lparr>pd_name = ''conversation.create'', pd_resource = ''conversation'',
      pd_action = ''create'', pd_description = ''Start conversations''\<rparr>,
    \<lparr>pd_name = ''conversation.read'', pd_resource = ''conversation'',
      pd_action = ''read'', pd_description = ''View conversations''\<rparr>,
    \<lparr>pd_name = ''conversation.update'', pd_resource = ''conversation'',
      pd_action = ''update'', pd_description = ''Update conversations''\<rparr>,
    \<lparr>pd_name = ''conversation.delete'', pd_resource = ''conversation'',
      pd_action = ''delete'', pd_description = ''Delete conversations''\<rparr>,
    \<lparr>pd_name = ''scraping.submit'', pd_resource = ''scraping'', pd_action = ''submit'',
      pd_description = ''Submit URLs for scraping''\<rparr>,
    \<lparr>pd_name = ''scraping.admin'', pd_resource = ''scraping'', pd_action = ''admin'',
      pd_description = ''Configure scraping settings''\<rparr>]"

text \<open>
  \<^verbatim>\<open>Permission(**perm_data)\<close>: the four given columns; \<^verbatim>\<open>id\<close>,
  \<^verbatim>\<open>is_system_permission\<close> and \<^verbatim>\<open>created_at\<close> take their defaults.
\<close>

definition Permission :: "uuid \<Rightarrow> timestamp \<Rightarrow> perm_data \<Rightarrow> permission" where
  "Permission new_id now pd =
     \<lparr>perm_id = new_id, perm_name = pd_name pd, description = Some (pd_description pd),
      resource = pd_resource pd, action = pd_action pd, is_system_permission = False,
      perm_created_at = now\<rparr>"

text \<open>
  The \<^verbatim>\<open>INSERT\<close> into \<^verbatim>\<open>permissions\<close> under the constraints of the table: the
  primary key, \<^verbatim>\<open>name ... UNIQUE\<close> and
  \<^verbatim>\<open>CONSTRAINT unique_resource_action UNIQUE(resource, action)\<close>.
\<close>

definition insert_permission :: "store \<Rightarrow> permission \<Rightarrow> db_error + store" where
  "insert_permission db p =
     (if perm_id p \<in> set (map perm_id (permissions db))
        then Inl (IntegrityError ''permissions_pkey'')
      else if perm_name p \<in> set (map perm_name (permissions db))
        then Inl (IntegrityError ''permissions_name_key'')
      else if (resource p, action p) \<in> set (map (\<lambda>x. (resource x, action x)) (permissions db))
        then Inl (IntegrityError ''unique_resource_action'')
      else Inr (db\<lparr>permissions := permissions db @ [p]\<rparr>))"

text \<open>
  The loop of \<^verbatim>\<open>seed_permissions\<close>. \<open>gen k\<close> is the \<open>k\<close>-th value that
  \<^verbatim>\<open>gen_random_uuid()\<close> returns during the run. The lookup
  \<^verbatim>\<open>db.query(Permission).filter(Permission.name == perm_data["name"]).first()\<close> sees
  the rows added earlier in the loop (the session flushes before a query). There is no
  \<^verbatim>\<open>try\<close>: a failing insert propagates and nothing is committed.
\<close>

fun seed_loop ::
  "(nat \<Rightarrow> uuid) \<Rightarrow> timestamp \<Rightarrow> perm_data list \<Rightarrow> nat \<Rightarrow> store \<Rightarrow> db_error + store" where
  "seed_loop gen now [] k db = Inr db"
| "seed_loop gen now (pd # pds) k db =
     (case find (\<lambda>p. perm_name p = pd_name pd) (permissions db) of
        Some existing \<Rightarrow> seed_loop gen now pds k db
      | None \<Rightarrow>
          (case insert_permission db (Permission (gen k) now pd) of
             Inl e \<Rightarrow> Inl e
           | Inr db' \<Rightarrow> seed_loop gen now pds (Suc k) db'))"

definition seed_permissions :: "(nat \<Rightarrow> uuid) \<Rightarrow> timestamp \<Rightarrow> store \<Rightarrow> db_error + store" where
  "seed_permissions gen now db = seed_loop gen now DEFAULT_PERMISSIONS 0 db"

definition empty_store :: store where
  "empty_store = \<lparr>users = [], roles = [], permissions = [], user_roles = [],
                  role_permissions = [], audit_logs = []\<rparr>"

section \<open>Vocabulary of the specification\<close>

text \<open>
  The roles a user holds through an effective grant (the user active, the grant active
  and not expired), and whether a role carries a permission through a link row.
\<close>

definition effective_roles :: "store \<Rightarrow> timestamp \<Rightarrow> uuid \<Rightarrow> role list" where
  "effective_roles db now uid =
     [r. u \<leftarrow> users db, user_id u = uid, is_active u,
         ur \<leftarrow> user_roles db, ur_user_id ur = uid, grant_effective now ur,
         r \<leftarrow> roles db, role_id r = ur_role_id ur]"

definition role_carries :: "store \<Rightarrow> role \<Rightarrow> string \<Rightarrow> string \<Rightarrow> bool" where
  "role_carries db r res act =
     list_ex (\<lambda>rp. rp_role_id rp = role_id r
                \<and> list_ex (\<lambda>p. perm_id p = rp_permission_id rp
                              \<and> resource p = res \<and> action p = act) (permissions db))
       (role_permissions db)"

definition holds_system_role :: "store \<Rightarrow> timestamp \<Rightarrow> uuid \<Rightarrow> bool" where
  "holds_system_role db now uid = list_ex is_system_role (effective_roles db now uid)"

definition some_role_carries :: "store \<Rightarrow> timestamp \<Rightarrow> uuid \<Rightarrow> string \<Rightarrow> string \<Rightarrow> bool" where
  "some_role_carries db now uid res act =
     list_ex (\<lambda>r. role_carries db r res act) (effective_roles db now uid)"

text \<open>The (resource, action) pairs of a list of permission rows and of a query result.\<close>

definition perm_key :: "permission \<Rightarrow> string \<times> string" where
  "perm_key p = (resource p, action p)"

definition grant_key :: "user_role \<Rightarrow> uuid \<times> uuid" where
  "grant_key g = (ur_user_id g, ur_role_id g)"

text \<open>
  The permission catalog as section 6 of the specification lists it, for comparison
  with \<open>DEFAULT_PERMISSIONS\<close>.
\<close>

definition spec_catalog :: "(string \<times> string) list" where
  "spec_catalog =
   [(''system'', ''admin''),
    (''organization'', ''read''), (''organization'', ''update''),
    (''user'', ''create''), (''user'', ''read''), (''user'', ''update''),
    (''user'', ''delete''), (''user'', ''invite''),
    (''knowledge_base'', ''create''), (''knowledge_base'', ''read''),
    (''knowledge_base'', ''update''), (''knowledge_base'', ''delete''),
    (''analytics'', ''read''), (''analytics'', ''admin''),
    (''conversation'', ''create''), (''conversation'', ''read''),
    (''conversation'', ''update''), (''conversation'', ''delete''),
    (''scraping'', ''submit''), (''scraping'', ''admin''),
    (''profile'', ''read''), (''profile'', ''update'')]"

text \<open>The rows that a seeding run adds when every entry of the list is inserted.\<close>

fun seeded_rows ::
  "(nat \<Rightarrow> uuid) \<Rightarrow> timestamp \<Rightarrow> nat \<Rightarrow> perm_data list \<Rightarrow> permission list" where
  "seeded_rows gen now k [] = []"
| "seeded_rows gen now k (pd # pds) = Permission (gen k) now pd # seeded_rows gen now (Suc k) pds"

text \<open>The rows of the join that come from one user row and one grant row.\<close>

definition rows_of :: "store \<Rightarrow> user \<Rightarrow> user_role \<Rightarrow> joined_row list" where
  "rows_of db u = (\<lambda>ur.
      if user_id u = ur_user_id ur then
       [(u, ur, r, rp, p).
          r \<leftarrow> roles db, ur_role_id ur = role_id r,
          rp \<leftarrow> role_permissions db, role_id r = rp_role_id rp,
          p \<leftarrow> permissions db, rp_permission_id rp = perm_id p]
      else [])"

section \<open>A small store for concrete checks\<close>

text \<open>
  One active user of organization 10 with a grant, expiring at time 100, of the
  non-system role "Regular User", which belongs to organization 20 and carries
  \<^verbatim>\<open>knowledge_base.read\<close>; the system role "Super Admin" carries \<^verbatim>\<open>system.admin\<close>.
\<close>

definition ex_user :: user where
  "ex_user = \<lparr>user_id = 1, is_active = True, organization_id = Some 10\<rparr>"

definition ex_role :: role where
  "ex_role = \<lparr>role_id = 100, role_name = ''Regular User'', is_system_role = False,
               is_default = True, role_organization_id = Some 20\<rparr>"

definition ex_admin_role :: role where
  "ex_admin_role = \<lparr>role_id = 101, role_name = ''Super Admin'', is_system_role = True,
                     is_default = False, role_organization_id = None\<rparr>"

definition ex_perm :: permission where
  "ex_perm = \<lparr>perm_id = 1000, perm_name = ''knowledge_base.read'',
               description = Some ''View knowledge bases'', resource = ''knowledge_base'',
               action = ''read'', is_system_permission = False, perm_created_at = 0\<rparr>"

definition ex_admin_perm :: permission where
  "ex_admin_perm = \<lparr>perm_id = 1001, perm_name = ''system.admin'',
               description = Some ''Full system administration'', resource = ''system'',
               action = ''admin'', is_system_permission = False, perm_created_at = 0\<rparr>"

definition ex_grant :: user_role where
  "ex_grant = \<lparr>ur_id = 500, ur_user_id = 1, ur_role_id = 100, assigned_by = 1,
                assigned_at = 0, expires_at = Some 100, ur_is_active = True\<rparr>"

definition ex_admin_grant :: user_role where
  "ex_admin_grant = \<lparr>ur_id = 501, ur_user_id = 1, ur_role_id = 101, assigned_by = 1,
                assigned_at = 0, expires_at = None, ur_is_active = True\<rparr>"

definition ex_link :: role_permission where
  "ex_link = \<lparr>rp_role_id = 100, rp_permission_id = 1000\<rparr>"

definition ex_admin_link :: role_permission where
  "ex_admin_link = \<lparr>rp_role_id = 101, rp_permission_id = 1001\<rparr>"

definition ex_store :: store where
  "ex_store = \<lparr>users = [ex_user], roles = [ex_role, ex_admin_role],
                permissions = [ex_perm, ex_admin_perm], user_roles = [ex_grant],
                role_permissions = [ex_link, ex_admin_link], audit_logs = []\<rparr>"

text \<open>The same store with the user also holding the system role.\<close>

definition ex_store_admin :: store where
  "ex_store_admin = ex_store\<lparr>user_roles := [ex_grant, ex_admin_grant]\<rparr>"

text \<open>The same store with the user's only grant revoked.\<close>

definition ex_store_revoked :: store where
  "ex_store_revoked = ex_store\<lparr>user_roles := [ex_grant\<lparr>ur_is_active := False\<rparr>]\<rparr>"



section \<open>Unfolding the small store\<close>

lemmas ex_defs = ex_user_def ex_role_def ex_admin_role_def ex_perm_def ex_admin_perm_def
  ex_grant_def ex_admin_grant_def ex_link_def ex_admin_link_def ex_store_def
  ex_store_admin_def ex_store_revoked_def

section \<open>The join and the two queries, row by row\<close>

lemma in_joined:
  "(u, ur, r, rp, p) \<in> set (joined db) \<longleftrightarrow>
     u \<in> set (users db) \<and> ur \<in> set (user_roles db) \<and> r \<in> set (roles db)
     \<and> rp \<in> set (role_permissions db) \<and> p \<in> set (permissions db)
     \<and> user_id u = ur_user_id ur \<and> ur_role_id ur = role_id r
     \<and> role_id r = rp_role_id rp \<and> rp_permission_id rp = perm_id p"
  by (auto simp: joined_def)

lemma check_permission_iff:
  "check_permission db now uid res act org_id \<longleftrightarrow>
     (\<exists>row \<in> set (joined db). check_where now uid res act org_id row)"
  by (auto simp: check_permission_def filter_empty_conv)

lemma check_permission_rows:
  "check_permission db now uid res act org \<longleftrightarrow>
     (\<exists>u ur r rp p. (u, ur, r, rp, p) \<in> set (joined db) \<and> user_id u = uid
        \<and> resource p = res \<and> action p = act \<and> is_active u \<and> grant_effective now ur
        \<and> (org = None \<or> organization_id u = org \<or> is_system_role r))"
  (is "?L \<longleftrightarrow> ?R")
proof
  assume ?L
  then obtain row where row: "row \<in> set (joined db)" "check_where now uid res act org row"
    unfolding check_permission_iff by blast
  obtain u ur r rp p where "row = (u, ur, r, rp, p)"
    by (cases row) auto
  with row have "(u, ur, r, rp, p) \<in> set (joined db) \<and> user_id u = uid
        \<and> resource p = res \<and> action p = act \<and> is_active u \<and> grant_effective now ur
        \<and> (org = None \<or> organization_id u = org \<or> is_system_role r)"
    by (auto simp: check_where_def)
  then show ?R by blast
next
  assume ?R
  then obtain u ur r rp p where h: "(u, ur, r, rp, p) \<in> set (joined db)" "user_id u = uid"
        "resource p = res" "action p = act" "is_active u" "grant_effective now ur"
        "org = None \<or> organization_id u = org \<or> is_system_role r"
    by blast
  then have "check_where now uid res act org (u, ur, r, rp, p)"
    by (cases org) (auto simp: check_where_def)
  with h(1) show ?L
    unfolding check_permission_iff by blast
qed

lemma listing_rows:
  "(res, act, nm, d) \<in> set (get_user_permissions db now uid) \<longleftrightarrow>
     (\<exists>u ur r rp p. (u, ur, r, rp, p) \<in> set (joined db) \<and> user_id u = uid
        \<and> is_active u \<and> grant_effective now ur
        \<and> resource p = res \<and> action p = act \<and> perm_name p = nm \<and> description p = d)"
  (is "?L \<longleftrightarrow> ?R")
proof
  assume ?L
  then obtain row where row: "row \<in> set (joined db)" "perms_where now uid row"
      "select_perm row = (res, act, nm, d)"
    by (auto simp: get_user_permissions_def)
  obtain u ur r rp p where "row = (u, ur, r, rp, p)"
    by (cases row) auto
  with row have "(u, ur, r, rp, p) \<in> set (joined db) \<and> user_id u = uid
        \<and> is_active u \<and> grant_effective now ur
        \<and> resource p = res \<and> action p = act \<and> perm_name p = nm \<and> description p = d"
    by (auto simp: perms_where_def select_perm_def)
  then show ?R by blast
next
  assume ?R
  then obtain u ur r rp p where h: "(u, ur, r, rp, p) \<in> set (joined db)" "user_id u = uid"
      "is_active u" "grant_effective now ur" "resource p = res" "action p = act"
      "perm_name p = nm" "description p = d"
    by blast
  then have "perms_where now uid (u, ur, r, rp, p)" "select_perm (u, ur, r, rp, p) = (res, act, nm, d)"
    by (auto simp: perms_where_def select_perm_def)
  with h(1) show ?L
    by (force simp: get_user_permissions_def)
qed

lemma in_effective_roles:
  "r \<in> set (effective_roles db now uid) \<longleftrightarrow>
     (\<exists>u\<in>set (users db). user_id u = uid \<and> is_active u) \<and>
     (\<exists>ur\<in>set (user_roles db). ur_user_id ur = uid \<and> grant_effective now ur
         \<and> r \<in> set (roles db) \<and> role_id r = ur_role_id ur)"
  by (auto simp: effective_roles_def)

lemma role_carries_iff:
  "role_carries db r res act \<longleftrightarrow>
     (\<exists>rp\<in>set (role_permissions db). \<exists>p\<in>set (permissions db).
        rp_role_id rp = role_id r \<and> perm_id p = rp_permission_id rp
        \<and> resource p = res \<and> action p = act)"
  by (auto simp: role_carries_def list_ex_iff)

section \<open>A grant that is not effective adds no row\<close>

lemma joined_rows_of:
  "joined db = concat (map (\<lambda>u. concat (map (rows_of db u) (user_roles db))) (users db))"
  by (simp add: joined_def rows_of_def)

lemma rows_of_grant: "row \<in> set (rows_of db u g) \<Longrightarrow> fst (snd row) = g"
  by (auto simp: rows_of_def split: if_splits)

lemma filter_concat_removeAll:
  assumes "filter P (f g) = []"
  shows "filter P (concat (map f (removeAll g xs))) = filter P (concat (map f xs))"
  using assms by (induction xs) auto

lemma filter_joined_removeAll:
  assumes "\<And>row. fst (snd row) = g \<Longrightarrow> \<not> P row"
  shows "filter P (joined (db\<lparr>user_roles := removeAll g (user_roles db)\<rparr>)) = filter P (joined db)"
proof -
  have e: "filter P (rows_of db u g) = []" for u
    using assms rows_of_grant by (fastforce simp: filter_empty_conv)
  have r: "rows_of (db\<lparr>user_roles := removeAll g (user_roles db)\<rparr>) = rows_of db"
    by (intro ext) (simp add: rows_of_def cong del: if_weak_cong)
  have "filter P (concat (map (rows_of db u) (removeAll g (user_roles db))))
        = filter P (concat (map (rows_of db u) (user_roles db)))" for u
    by (rule filter_concat_removeAll) (rule e)
  then show ?thesis
    by (simp add: joined_rows_of r filter_concat comp_def)
qed

lemma not_effective: "\<not> ur_is_active g \<or> (\<exists>t. expires_at g = Some t \<and> t < now) \<Longrightarrow> \<not> grant_effective now g"
  by (auto simp: grant_effective_def)

section \<open>The role's organization is not read; the user's own organization always passes\<close>


lemma listing_iff_check_None:
  "(res, act) \<in> order_key ` set (get_user_permissions db now uid) \<longleftrightarrow> check_permission db now uid res act None"
proof -
  have "(res, act) \<in> order_key ` set (get_user_permissions db now uid) \<longleftrightarrow>
        (\<exists>nm d. (res, act, nm, d) \<in> set (get_user_permissions db now uid))"
    by (force simp: order_key_def)
  also have "\<dots> \<longleftrightarrow> check_permission db now uid res act None"
    unfolding listing_rows check_permission_rows by blast
  finally show ?thesis .
qed

lemma check_own_org:
  assumes "u \<in> set (users db)" "distinct (map user_id (users db))"
  shows "check_permission db now (user_id u) res act (organization_id u) = check_permission db now (user_id u) res act None"
proof -
  have eq: "u' = u" if "u' \<in> set (users db)" "user_id u' = user_id u" for u'
    using assms that by (meson distinct_map inj_onD)
  have "u' = u" if "(u', ur, r, rp, p) \<in> set (joined db)" "user_id u' = user_id u" for u' ur r rp p
    using that eq by (simp add: in_joined)
  then show ?thesis
    unfolding check_permission_rows by blast
qed

section \<open>The seeding loop\<close>


lemma insert_permission_fresh:
  assumes "perm_id p \<notin> set (map perm_id (permissions db))"
      "perm_name p \<notin> set (map perm_name (permissions db))"
      "perm_key p \<notin> set (map perm_key (permissions db))"
  shows "insert_permission db p = Inr (db\<lparr>permissions := permissions db @ [p]\<rparr>)"
  using assms by (auto simp: insert_permission_def perm_key_def)

lemma find_name_None:
  "find (\<lambda>p. perm_name p = n) ps = None \<longleftrightarrow> n \<notin> set (map perm_name ps)"
  by (auto simp: find_None_iff)

lemma seed_loop_fresh:
  assumes "distinct (map pd_name pds)"
    and "distinct (map (\<lambda>pd. (pd_resource pd, pd_action pd)) pds)"
    and "inj_on gen {k..<k + length pds}"
    and "\<forall>pd\<in>set pds. pd_name pd \<notin> set (map perm_name (permissions db))"
    and "\<forall>pd\<in>set pds. (pd_resource pd, pd_action pd) \<notin> set (map perm_key (permissions db))"
    and "\<forall>i\<in>{k..<k + length pds}. gen i \<notin> set (map perm_id (permissions db))"
  shows "seed_loop gen now pds k db = Inr (db\<lparr>permissions := permissions db @ seeded_rows gen now k pds\<rparr>)"
  using assms
proof (induction pds arbitrary: k db)
  case Nil
  then show ?case by simp
next
  case (Cons pd pds)
  let ?p = "Permission (gen k) now pd"
  let ?db = "db\<lparr>permissions := permissions db @ [?p]\<rparr>"
  have up: "{k..<k + length (pd # pds)} = insert k {Suc k..<Suc k + length pds}"
    by auto
  have nf: "find (\<lambda>p. perm_name p = pd_name pd) (permissions db) = None"
    using Cons.prems(4) by (simp add: find_name_None)
  have ins: "insert_permission db ?p = Inr ?db"
    using Cons.prems(4,5,6) unfolding up
    by (intro insert_permission_fresh) (auto simp: Permission_def perm_key_def)
  have "seed_loop gen now pds (Suc k) ?db
        = Inr (?db\<lparr>permissions := permissions ?db @ seeded_rows gen now (Suc k) pds\<rparr>)"
  proof (rule Cons.IH)
    show "distinct (map pd_name pds)" using Cons.prems(1) by simp
    show "distinct (map (\<lambda>pd. (pd_resource pd, pd_action pd)) pds)" using Cons.prems(2) by simp
    show "inj_on gen {Suc k..<Suc k + length pds}"
      using Cons.prems(3) unfolding up by simp
    show "\<forall>pd\<in>set pds. pd_name pd \<notin> set (map perm_name (permissions ?db))"
      using Cons.prems(1,4) by (auto simp: Permission_def image_iff)
    show "\<forall>pd\<in>set pds. (pd_resource pd, pd_action pd) \<notin> set (map perm_key (permissions ?db))"
      using Cons.prems(2,5) by (auto simp: Permission_def perm_key_def image_iff)
    show "\<forall>i\<in>{Suc k..<Suc k + length pds}. gen i \<notin> set (map perm_id (permissions ?db))"
      using Cons.prems(3,6) unfolding up by (auto simp: Permission_def image_iff)
  qed
  then show ?case
    by (simp add: nf ins)
qed




lemma DEFAULT_names: "distinct (map pd_name DEFAULT_PERMISSIONS)"
  by (simp add: DEFAULT_PERMISSIONS_def)

lemma DEFAULT_keys: "distinct (map (\<lambda>pd. (pd_resource pd, pd_action pd)) DEFAULT_PERMISSIONS)"
  by (simp add: DEFAULT_PERMISSIONS_def)

lemma DEFAULT_length: "length DEFAULT_PERMISSIONS = 17"
  by (simp add: DEFAULT_PERMISSIONS_def)

lemma seed_empty_store:
  assumes "inj_on gen {0..<17}"
  shows "seed_permissions gen now empty_store
         = Inr (empty_store\<lparr>permissions := seeded_rows gen now 0 DEFAULT_PERMISSIONS\<rparr>)"
proof -
  have "seed_loop gen now DEFAULT_PERMISSIONS 0 empty_store
        = Inr (empty_store\<lparr>permissions := permissions empty_store @ seeded_rows gen now 0 DEFAULT_PERMISSIONS\<rparr>)"
    using assms
    by (intro seed_loop_fresh DEFAULT_names DEFAULT_keys) (simp_all add: DEFAULT_length empty_store_def)
  then show ?thesis
    by (simp add: seed_permissions_def empty_store_def)
qed

lemma seeded_keys:
  "map perm_key (seeded_rows gen now k pds) = map (\<lambda>pd. (pd_resource pd, pd_action pd)) pds"
  by (induction pds arbitrary: k) (simp_all add: Permission_def perm_key_def)

lemma DEFAULT_key_list:
  "map (\<lambda>pd. (pd_resource pd, pd_action pd)) DEFAULT_PERMISSIONS =
   [(''system'', ''admin''),
    (''user'', ''create''), (''user'', ''read''), (''user'', ''update''), (''user'', ''delete''),
    (''knowledge_base'', ''create''), (''knowledge_base'', ''read''),
    (''knowledge_base'', ''update''), (''knowledge_base'', ''delete''),
    (''analytics'', ''read''), (''analytics'', ''admin''),
    (''conversation'', ''create''), (''conversation'', ''read''),
    (''conversation'', ''update''), (''conversation'', ''delete''),
    (''scraping'', ''submit''), (''scraping'', ''admin'')]"
  by (simp add: DEFAULT_PERMISSIONS_def)

section \<open>Claims about the permission check\<close>

text \<open>
  C1. For every active user with an effective grant (active, and not expiring or
  expiring in the future) of a role, and every permission linked to that role, the check
  for that permission's resource and action in the user's own organization allows.
\<close>

theorem effective_grant_allows:
  assumes "u \<in> set (users db)" "is_active u"
    "g \<in> set (user_roles db)" "ur_user_id g = user_id u" "grant_effective now g"
    "r \<in> set (roles db)" "role_id r = ur_role_id g"
    "l \<in> set (role_permissions db)" "rp_role_id l = role_id r"
    "p \<in> set (permissions db)" "perm_id p = rp_permission_id l"
  shows "check_permission db now (user_id u) (resource p) (action p) (organization_id u)"
proof -
  have "(u, g, r, l, p) \<in> set (joined db)"
    using assms by (simp add: in_joined)
  with assms(2,5) show ?thesis
    unfolding check_permission_rows by blast
qed

theorem effective_grant_allows_witness:
  "ex_user \<in> set (users ex_store) \<and> is_active ex_user
   \<and> ex_grant \<in> set (user_roles ex_store) \<and> ur_user_id ex_grant = user_id ex_user
   \<and> grant_effective 0 ex_grant
   \<and> ex_role \<in> set (roles ex_store) \<and> role_id ex_role = ur_role_id ex_grant
   \<and> ex_link \<in> set (role_permissions ex_store) \<and> rp_role_id ex_link = role_id ex_role
   \<and> ex_perm \<in> set (permissions ex_store) \<and> perm_id ex_perm = rp_permission_id ex_link
   \<and> check_permission ex_store 0 1 ''knowledge_base'' ''read'' (Some 10)"
  using effective_grant_allows [of ex_user ex_store ex_grant 0 ex_role ex_link ex_perm]
  by (simp add: ex_defs grant_effective_def)

text \<open>
  C2 (as amended). The check succeeds exactly when the user is active and some
  effective role of the user carries the (resource, action) permission and, for that same
  role, the organization argument is null, or equals the user's organization, or the role
  is a system role. A system role lifts the organization test only for the permissions it
  carries itself: holding a system role does not lift it for a permission that only a
  non-system role carries.
\<close>

theorem system_role_bypass_is_per_role:
  "check_permission db now uid res act org \<longleftrightarrow>
     (\<exists>u\<in>set (users db). user_id u = uid \<and> is_active u \<and>
        (\<exists>r\<in>set (effective_roles db now uid). role_carries db r res act \<and>
            (org = None \<or> organization_id u = org \<or> is_system_role r)))"
  (is "?L \<longleftrightarrow> ?R")
proof
  assume ?L
  then obtain u ur r rp p where h: "(u, ur, r, rp, p) \<in> set (joined db)" "user_id u = uid"
        "resource p = res" "action p = act" "is_active u" "grant_effective now ur"
        "org = None \<or> organization_id u = org \<or> is_system_role r"
    unfolding check_permission_rows by blast
  from h(1) have j: "u \<in> set (users db)" "ur \<in> set (user_roles db)" "r \<in> set (roles db)"
      "rp \<in> set (role_permissions db)" "p \<in> set (permissions db)"
      "user_id u = ur_user_id ur" "ur_role_id ur = role_id r"
      "role_id r = rp_role_id rp" "rp_permission_id rp = perm_id p"
    by (simp_all add: in_joined)
  have "r \<in> set (effective_roles db now uid)"
    unfolding in_effective_roles using h(2,5,6) j by metis
  moreover have "role_carries db r res act"
    unfolding role_carries_iff using h(3,4) j by metis
  ultimately show ?R
    using h j by blast
next
  assume ?R
  then obtain u r where h: "u \<in> set (users db)" "user_id u = uid" "is_active u"
      "r \<in> set (effective_roles db now uid)" "role_carries db r res act"
      "org = None \<or> organization_id u = org \<or> is_system_role r"
    by blast
  from h(4) obtain ur where ur: "ur \<in> set (user_roles db)" "ur_user_id ur = uid"
      "grant_effective now ur" "r \<in> set (roles db)" "role_id r = ur_role_id ur"
    unfolding in_effective_roles by blast
  from h(5) obtain rp p where rp: "rp \<in> set (role_permissions db)" "p \<in> set (permissions db)"
      "rp_role_id rp = role_id r" "perm_id p = rp_permission_id rp"
      "resource p = res" "action p = act"
    unfolding role_carries_iff by blast
  have "(u, ur, r, rp, p) \<in> set (joined db)"
    using h ur rp by (simp add: in_joined)
  then show ?L
    unfolding check_permission_rows using h ur rp by blast
qed

theorem system_role_bypass_is_per_role_witness:
  "ex_user \<in> set (users ex_store_admin) \<and> user_id ex_user = 1 \<and> is_active ex_user
   \<and> ex_admin_role \<in> set (effective_roles ex_store_admin 0 1)
   \<and> role_carries ex_store_admin ex_admin_role ''system'' ''admin''
   \<and> is_system_role ex_admin_role
   \<and> check_permission ex_store_admin 0 1 ''system'' ''admin'' (Some 20)"
proof -
  have h: "ex_user \<in> set (users ex_store_admin)" "user_id ex_user = 1" "is_active ex_user"
      "ex_admin_role \<in> set (effective_roles ex_store_admin 0 1)"
      "role_carries ex_store_admin ex_admin_role ''system'' ''admin''"
      "is_system_role ex_admin_role"
    by (simp_all add: ex_defs effective_roles_def role_carries_def grant_effective_def)
  then have "check_permission ex_store_admin 0 1 ''system'' ''admin'' (Some 20)"
    unfolding system_role_bypass_is_per_role [of ex_store_admin 0 1 "''system''" "''admin''" "Some 20"]
    by blast
  with h show ?thesis by simp
qed

text \<open>
  The claim as it was stated fails: the user below holds an effective system role, an
  effective role of the user carries \<^verbatim>\<open>knowledge_base.read\<close>, and the check for another
  organization is refused, because the role that carries the permission is not the system
  role.
\<close>

theorem any_system_role_bypass_counterexample:
  "holds_system_role ex_store_admin 0 1
   \<and> some_role_carries ex_store_admin 0 1 ''knowledge_base'' ''read''
   \<and> \<not> check_permission ex_store_admin 0 1 ''knowledge_base'' ''read'' (Some 20)"
  by (simp add: ex_defs holds_system_role_def some_role_carries_def effective_roles_def
      role_carries_def grant_effective_def check_permission_def check_where_def joined_def)

text \<open>
  C3. A grant that is revoked (not active) or expired (its expiry is earlier than the
  current time) resolves nothing: both queries return what they return when the grant row
  is absent, although the role's link rows are still there; and when it is the user's
  only grant, the check is refused and the listing is empty. Expiry needs no revoke.
\<close>

theorem ineffective_grant_resolves_nothing:
  assumes "\<not> ur_is_active g \<or> (\<exists>t. expires_at g = Some t \<and> t < now)"
  shows "check_permission (db\<lparr>user_roles := removeAll g (user_roles db)\<rparr>) now uid res act org
           = check_permission db now uid res act org
       \<and> get_user_permissions (db\<lparr>user_roles := removeAll g (user_roles db)\<rparr>) now uid
           = get_user_permissions db now uid
       \<and> ((\<forall>g'\<in>set (user_roles db). ur_user_id g' = uid \<longrightarrow> g' = g) \<longrightarrow>
            \<not> check_permission db now uid res act org \<and> get_user_permissions db now uid = [])"
proof -
  have ne: "\<not> grant_effective now g"
    using assms by (rule not_effective)
  have 1: "filter (check_where now uid res act org) (joined (db\<lparr>user_roles := removeAll g (user_roles db)\<rparr>))
         = filter (check_where now uid res act org) (joined db)"
    by (rule filter_joined_removeAll) (auto simp: check_where_def ne)
  have 2: "filter (perms_where now uid) (joined (db\<lparr>user_roles := removeAll g (user_roles db)\<rparr>))
         = filter (perms_where now uid) (joined db)"
    by (rule filter_joined_removeAll) (auto simp: perms_where_def ne)
  have 3: "filter (check_where now uid res act org) (joined db) = []
         \<and> filter (perms_where now uid) (joined db) = []"
    if only: "\<forall>g'\<in>set (user_roles db). ur_user_id g' = uid \<longrightarrow> g' = g"
  proof -
    have "\<not> check_where now uid res act org row \<and> \<not> perms_where now uid row"
      if "row \<in> set (joined db)" for row
    proof -
      obtain u ur r rp p where row: "row = (u, ur, r, rp, p)" by (cases row) auto
      with that have "ur \<in> set (user_roles db)" "user_id u = ur_user_id ur"
        by (simp_all add: in_joined)
      with only have "user_id u = uid \<longrightarrow> ur = g" by auto
      with ne show ?thesis
        by (auto simp: row check_where_def perms_where_def)
    qed
    then show ?thesis by (simp add: filter_empty_conv)
  qed
  show ?thesis
    using 1 2 3 by (simp add: check_permission_def get_user_permissions_def)
qed

theorem ineffective_grant_resolves_nothing_witness:
  "expires_at ex_grant = Some 100 \<and> (100::int) < 200
   \<and> user_roles ex_store = [ex_grant]
   \<and> ex_link \<in> set (role_permissions ex_store)
   \<and> check_permission ex_store 0 1 ''knowledge_base'' ''read'' (Some 10)
   \<and> \<not> check_permission ex_store 200 1 ''knowledge_base'' ''read'' (Some 10)
   \<and> get_user_permissions ex_store 200 1 = []"
proof -
  have e: "\<not> ur_is_active ex_grant \<or> (\<exists>t. expires_at ex_grant = Some t \<and> t < 200)"
    by (simp add: ex_defs)
  have o: "\<forall>g'\<in>set (user_roles ex_store). ur_user_id g' = 1 \<longrightarrow> g' = ex_grant"
    by (simp add: ex_defs)
  have b: "check_permission ex_store 0 1 ''knowledge_base'' ''read'' (Some 10)"
    by (simp add: ex_defs grant_effective_def check_permission_def check_where_def joined_def)
  from ineffective_grant_resolves_nothing [OF e, of ex_store 1 "''knowledge_base''" "''read''" "Some 10"] o
  have "\<not> check_permission ex_store 200 1 ''knowledge_base'' ''read'' (Some 10)
        \<and> get_user_permissions ex_store 200 1 = []"
    by blast
  with b show ?thesis by (simp add: ex_defs)
qed

text \<open>
  C5. The listing and the check agree: a (resource, action) pair is among the rows of
  \<^verbatim>\<open>get_user_permissions\<close> exactly when \<^verbatim>\<open>check_permission\<close> allows it with no
  organization argument, and, for a user of the table (whose id is the primary key),
  exactly when it allows it with the user's own organization, which is the argument the
  decorator passes.
\<close>

theorem listing_agrees_with_check:
  "((res, act) \<in> order_key ` set (get_user_permissions db now uid)
      \<longleftrightarrow> check_permission db now uid res act None)
   \<and> (u \<in> set (users db) \<and> distinct (map user_id (users db)) \<longrightarrow>
       ((res, act) \<in> order_key ` set (get_user_permissions db now (user_id u))
          \<longleftrightarrow> check_permission db now (user_id u) res act (organization_id u)))"
  using listing_iff_check_None check_own_org by blast

theorem listing_agrees_with_check_witness:
  "ex_user \<in> set (users ex_store) \<and> distinct (map user_id (users ex_store))
   \<and> (''knowledge_base'', ''read'') \<in> order_key ` set (get_user_permissions ex_store 0 1)
   \<and> check_permission ex_store 0 1 ''knowledge_base'' ''read'' (Some 10)
   \<and> (''system'', ''admin'') \<notin> order_key ` set (get_user_permissions ex_store 0 1)
   \<and> \<not> check_permission ex_store 0 1 ''system'' ''admin'' (Some 10)"
proof -
  have h: "ex_user \<in> set (users ex_store) \<and> distinct (map user_id (users ex_store))"
    by (simp add: ex_defs)
  have i: "user_id ex_user = 1" "organization_id ex_user = Some 10"
    by (simp_all add: ex_defs)
  have c: "check_permission ex_store 0 1 ''knowledge_base'' ''read'' (Some 10)"
      "\<not> check_permission ex_store 0 1 ''system'' ''admin'' (Some 10)"
      "check_permission ex_store 0 1 ''knowledge_base'' ''read'' None"
      "\<not> check_permission ex_store 0 1 ''system'' ''admin'' None"
    by (simp_all add: ex_defs grant_effective_def check_permission_def check_where_def joined_def)
  from listing_agrees_with_check [of "''knowledge_base''" "''read''" ex_store 0 1 ex_user]
       listing_agrees_with_check [of "''system''" "''admin''" ex_store 0 1 ex_user] h i c
  show ?thesis by simp
qed



text \<open>
  C8 (as amended). The decision writes nothing at all: a refused call returns the 403
  exception and the store it was given, an allowed call is exactly the call of the
  handler on that store, and with a handler that writes nothing the whole store, the
  audit table included, is returned as it was. No audit record is produced; users, roles,
  permissions and grants are never changed by the decision.
\<close>

theorem decision_writes_nothing:
  "(\<not> check_permission db now (user_id cu) res act (organization_id cu) \<longrightarrow>
      require_permission res act func cu now db
        = (Inl (HTTPException 403 (''Insufficient permissions: '' @ res @ ''.'' @ act)), db))
   \<and> (check_permission db now (user_id cu) res act (organization_id cu) \<longrightarrow>
      require_permission res act func cu now db = func db)
   \<and> snd (require_permission res act (pure_handler v) cu now db) = db"
  by (simp add: require_permission_def pure_handler_def)

theorem decision_writes_nothing_witness:
  "check_permission ex_store 0 (user_id ex_user) ''knowledge_base'' ''read'' (organization_id ex_user)
   \<and> require_permission ''knowledge_base'' ''read'' (pure_handler ()) ex_user 0 ex_store
       = (Inr (), ex_store)
   \<and> \<not> check_permission ex_store 0 (user_id ex_user) ''system'' ''admin'' (organization_id ex_user)
   \<and> require_permission ''system'' ''admin'' (pure_handler ()) ex_user 0 ex_store
       = (Inl (HTTPException 403 ''Insufficient permissions: system.admin''), ex_store)"
proof -
  have c: "check_permission ex_store 0 (user_id ex_user) ''knowledge_base'' ''read'' (organization_id ex_user)"
      "\<not> check_permission ex_store 0 (user_id ex_user) ''system'' ''admin'' (organization_id ex_user)"
    by (simp_all add: ex_defs grant_effective_def check_permission_def check_where_def joined_def)
  from decision_writes_nothing [of ex_store 0 ex_user "''knowledge_base''" "''read''" "pure_handler ()" "()"]
       decision_writes_nothing [of ex_store 0 ex_user "''system''" "''admin''" "pure_handler ()" "()"] c
  show ?thesis by (simp add: pure_handler_def)
qed

text \<open>
  The claim as it was stated fails: after an allowed call and after a refused call the
  audit table has as many rows as before, not one more.
\<close>

theorem one_audit_record_per_decision_counterexample:
  "length (audit_logs (snd (require_permission ''knowledge_base'' ''read'' (pure_handler ())
                              ex_user 0 ex_store)))
     \<noteq> length (audit_logs ex_store) + 1
   \<and> length (audit_logs (snd (require_permission ''system'' ''admin'' (pure_handler ())
                              ex_user 0 ex_store)))
     \<noteq> length (audit_logs ex_store) + 1"
  by (simp add: require_permission_def pure_handler_def)

section \<open>Claims about granting a role\<close>

text \<open>
  C4 (as amended). \<^verbatim>\<open>assign_role\<close> only inserts. When a grant row for (user, role)
  already exists, active or revoked, the call changes nothing and returns False: the row
  is not updated and its \<^verbatim>\<open>is_active\<close> is not set. When the call returns True it has
  appended one new row, with \<^verbatim>\<open>is_active\<close> true, for a pair that had no row. Every call
  keeps (user\_id, role\_id) unique in the grant table.
\<close>

theorem assign_role_is_insert_only:
  "((uid, rid) \<in> set (map grant_key (user_roles db)) \<longrightarrow>
      assign_role db now new_id uid rid by_uid exp = (False, db))
   \<and> (fst (assign_role db now new_id uid rid by_uid exp) \<longrightarrow>
      (uid, rid) \<notin> set (map grant_key (user_roles db))
      \<and> ur_is_active (UserRole new_id now uid rid by_uid exp)
      \<and> snd (assign_role db now new_id uid rid by_uid exp)
          = db\<lparr>user_roles := user_roles db @ [UserRole new_id now uid rid by_uid exp]\<rparr>)
   \<and> (distinct (map grant_key (user_roles db)) \<longrightarrow>
      distinct (map grant_key (user_roles (snd (assign_role db now new_id uid rid by_uid exp)))))"
proof -
  have k: "(\<lambda>x. (ur_user_id x, ur_role_id x)) = grant_key"
    by (simp add: grant_key_def fun_eq_iff)
  have g: "grant_key (UserRole new_id now uid rid by_uid exp) = (uid, rid)"
      "ur_is_active (UserRole new_id now uid rid by_uid exp)"
    by (simp_all add: grant_key_def UserRole_def)
  show ?thesis
    unfolding assign_role_def insert_user_role_def k
    using g by (simp add: UserRole_def)
qed

theorem assign_role_is_insert_only_witness:
  "(1, 100) \<in> set (map grant_key (user_roles ex_store_revoked))
   \<and> distinct (map grant_key (user_roles ex_store_revoked))
   \<and> assign_role ex_store_revoked 5 502 1 100 1 None = (False, ex_store_revoked)
   \<and> fst (assign_role ex_store 0 501 1 101 1 None)
   \<and> snd (assign_role ex_store 0 501 1 101 1 None) = ex_store_admin"
proof -
  have h: "(1, 100) \<in> set (map grant_key (user_roles ex_store_revoked))"
      "distinct (map grant_key (user_roles ex_store_revoked))"
    by (simp_all add: ex_defs grant_key_def)
  have f: "fst (assign_role ex_store 0 501 1 101 1 None)"
    by (simp add: assign_role_def insert_user_role_def UserRole_def ex_defs)
  have e: "ex_store\<lparr>user_roles := user_roles ex_store @ [UserRole 501 0 1 101 1 None]\<rparr>
           = ex_store_admin"
    by (simp add: UserRole_def ex_defs)
  from assign_role_is_insert_only [of 1 100 ex_store_revoked 5 502 1 None]
       assign_role_is_insert_only [of 1 101 ex_store 0 501 1 None] h f e
  show ?thesis by simp
qed

text \<open>
  The claim as it was stated fails: granting again a role whose grant was revoked
  returns False and leaves the one row revoked.
\<close>

theorem regrant_upserts_counterexample:
  "map grant_key (user_roles ex_store_revoked) = [(1, 100)]
   \<and> map ur_is_active (user_roles ex_store_revoked) = [False]
   \<and> \<not> fst (assign_role ex_store_revoked 5 502 1 100 1 None)
   \<and> map ur_is_active (user_roles (snd (assign_role ex_store_revoked 5 502 1 100 1 None)))
       = [False]"
  by (simp add: assign_role_def insert_user_role_def UserRole_def ex_defs grant_key_def)

text \<open>
  C10. \<^verbatim>\<open>assign_role\<close> never raises and is atomic: when the insert fails, whatever the
  violated constraint, the call returns False and the store it was given; when the insert
  succeeds the call returns True and the store with exactly one grant row appended; and
  an existing row for the same (user, role) makes the insert fail.
\<close>

theorem assign_role_never_raises_and_is_atomic:
  "(isl (insert_user_role db (UserRole new_id now uid rid by_uid exp)) \<longrightarrow>
      assign_role db now new_id uid rid by_uid exp = (False, db))
   \<and> (\<not> isl (insert_user_role db (UserRole new_id now uid rid by_uid exp)) \<longrightarrow>
      assign_role db now new_id uid rid by_uid exp
        = (True, db\<lparr>user_roles := user_roles db @ [UserRole new_id now uid rid by_uid exp]\<rparr>))
   \<and> ((uid, rid) \<in> set (map grant_key (user_roles db)) \<longrightarrow>
      isl (insert_user_role db (UserRole new_id now uid rid by_uid exp)))"
proof -
  have k: "(\<lambda>x. (ur_user_id x, ur_role_id x)) = grant_key"
    by (simp add: grant_key_def fun_eq_iff)
  show ?thesis
    unfolding assign_role_def insert_user_role_def k
    by (simp add: UserRole_def)
qed

theorem assign_role_never_raises_and_is_atomic_witness:
  "(1, 100) \<in> set (map grant_key (user_roles ex_store))
   \<and> isl (insert_user_role ex_store (UserRole 502 5 1 100 1 None))
   \<and> assign_role ex_store 5 502 1 100 1 None = (False, ex_store)
   \<and> \<not> isl (insert_user_role ex_store (UserRole 501 0 1 101 1 None))
   \<and> assign_role ex_store 0 501 1 101 1 None = (True, ex_store_admin)"
proof -
  have h: "(1, 100) \<in> set (map grant_key (user_roles ex_store))"
    by (simp add: ex_defs grant_key_def)
  have n: "\<not> isl (insert_user_role ex_store (UserRole 501 0 1 101 1 None))"
    by (simp add: insert_user_role_def UserRole_def ex_defs)
  have e: "ex_store\<lparr>user_roles := user_roles ex_store @ [UserRole 501 0 1 101 1 None]\<rparr>
           = ex_store_admin"
    by (simp add: UserRole_def ex_defs)
  from assign_role_never_raises_and_is_atomic [of ex_store 502 5 1 100 1 None]
       assign_role_never_raises_and_is_atomic [of ex_store 501 0 1 101 1 None] h n e
  show ?thesis by simp
qed

section \<open>Claims about seeding\<close>

text \<open>
  C6 (as amended). After \<^verbatim>\<open>seed_permissions\<close> runs on an empty store (the generated
  ids being distinct), the permission table holds exactly one row for each of the 17
  entries of \<open>DEFAULT_PERMISSIONS\<close>, in that order: system.admin, user.create, read,
  update and delete, knowledge\_base.create, read, update and delete, analytics.read and
  admin, conversation.create, read, update and delete, scraping.submit and admin. No
  role and no role-permission link is inserted: the role tables stay empty.
\<close>

theorem seed_permissions_on_empty_store:
  assumes "inj_on gen {0..<17}"
  shows "seed_permissions gen now empty_store
           = Inr (empty_store\<lparr>permissions := seeded_rows gen now 0 DEFAULT_PERMISSIONS\<rparr>)
       \<and> map perm_key (seeded_rows gen now 0 DEFAULT_PERMISSIONS) =
           [(''system'', ''admin''),
            (''user'', ''create''), (''user'', ''read''), (''user'', ''update''),
            (''user'', ''delete''),
            (''knowledge_base'', ''create''), (''knowledge_base'', ''read''),
            (''knowledge_base'', ''update''), (''knowledge_base'', ''delete''),
            (''analytics'', ''read''), (''analytics'', ''admin''),
            (''conversation'', ''create''), (''conversation'', ''read''),
            (''conversation'', ''update''), (''conversation'', ''delete''),
            (''scraping'', ''submit''), (''scraping'', ''admin'')]
       \<and> roles (empty_store\<lparr>permissions := seeded_rows gen now 0 DEFAULT_PERMISSIONS\<rparr>) = []
       \<and> role_permissions (empty_store\<lparr>permissions := seeded_rows gen now 0 DEFAULT_PERMISSIONS\<rparr>)
           = []"
  using seed_empty_store [OF assms, of now]
  by (simp add: seeded_keys DEFAULT_key_list empty_store_def)

theorem seed_permissions_on_empty_store_witness:
  "inj_on (id :: nat \<Rightarrow> nat) {0..<17}
   \<and> seed_permissions id 0 empty_store
       = Inr (empty_store\<lparr>permissions := seeded_rows id 0 0 DEFAULT_PERMISSIONS\<rparr>)
   \<and> length (seeded_rows id 0 0 DEFAULT_PERMISSIONS) = 17
   \<and> roles (empty_store\<lparr>permissions := seeded_rows id 0 0 DEFAULT_PERMISSIONS\<rparr>) = []"
proof -
  have i: "inj_on (id :: nat \<Rightarrow> nat) {0..<17}"
    by simp
  have "length (map perm_key (seeded_rows id 0 0 DEFAULT_PERMISSIONS)) = 17"
    using seed_permissions_on_empty_store [OF i, of 0] by simp
  then have "length (seeded_rows id 0 0 DEFAULT_PERMISSIONS) = 17"
    by simp
  with seed_permissions_on_empty_store [OF i, of 0] i show ?thesis
    by simp
qed

text \<open>
  The claim as it was stated fails: after seeding an empty store the pairs of the
  permission table are not the catalog of the specification (organization.read is not
  among them), and the role table is empty.
\<close>

theorem seeded_catalog_counterexample:
  "\<not> isl (seed_permissions id 0 empty_store)
   \<and> (''organization'', ''read'') \<in> set spec_catalog
   \<and> (''organization'', ''read'')
       \<notin> set (map perm_key (permissions (projr (seed_permissions id 0 empty_store))))
   \<and> roles (projr (seed_permissions id 0 empty_store)) = []"
proof -
  have h: "seed_permissions id 0 empty_store
           = Inr (empty_store\<lparr>permissions := seeded_rows id 0 0 DEFAULT_PERMISSIONS\<rparr>)"
    by (rule seed_empty_store) simp
  have "(''organization'', ''read'') \<in> set spec_catalog"
    by (simp add: spec_catalog_def)
  moreover have "(''organization'', ''read'')
      \<notin> set (map perm_key (seeded_rows id 0 0 DEFAULT_PERMISSIONS))"
    unfolding seeded_keys DEFAULT_key_list by simp
  ultimately show ?thesis
    unfolding h by (simp add: empty_store_def)
qed




end
